theory Spec2Isabelle
  imports Main
begin

section \<open>The rule prefer-t-regex of eslint-plugin-ava\<close>

text \<open>
  A shallow embedding of \<^verbatim>\<open>src/rules/prefer-t-regex.js\<close>. The rule receives call
  expressions of a parsed test file, decides with a scope lookup and a recursive walk
  whether one of the operands is a regular expression, and reports a finding with a fix.
\<close>

subsection \<open>Syntax tree nodes\<close>

text \<open>
  The nodes are the host parser's (ESTree). The rule tells five node types apart and
  reads the properties \<^verbatim>\<open>name\<close>, \<^verbatim>\<open>callee\<close>, \<^verbatim>\<open>arguments\<close>,
  \<^verbatim>\<open>object\<close>, \<^verbatim>\<open>property\<close>, \<^verbatim>\<open>raw\<close> and \<^verbatim>\<open>regex\<close>; the
  datatype keeps exactly those.
  \<^item> Every node of a file carries its source range, which tells two occurrences of the
    same text apart (the host's scope and text queries depend on the occurrence).
  \<^item> A literal with the \<^verbatim>\<open>regex\<close> property is \<open>RegExpLiteral\<close>: its type is
    still \<^verbatim>\<open>Literal\<close>, and its raw text is the source text
    \<^verbatim>\<open>/pattern/flags\<close>.
  \<^item> \<open>OtherNode\<close> is a node of any other type (this, a function, a template, a spread
    element, and so on): it has none of the properties above.
  \<^item> \<open>EmptyObject\<close> is the object \<^verbatim>\<open>{}\<close> that \<^verbatim>\<open>booleanHandler\<close> puts
    into \<^verbatim>\<open>lookup\<close> and \<^verbatim>\<open>variable\<close> before it looks at the method name.
  \<^item> An absent value (\<^verbatim>\<open>undefined\<close>, \<^verbatim>\<open>null\<close>) is \<open>None\<close>.
  A private name in property position is read through \<^verbatim>\<open>name\<close> only, as an
  identifier is, and is an \<open>Identifier\<close> here.
\<close>

type_synonym range = "nat \<times> nat"

datatype node =
    Identifier range string
  | Literal range string
  | RegExpLiteral range string string
  | CallExpression range node "node list"
  | NewExpression range node "node list"
  | MemberExpression range node node
  | OtherNode range
  | EmptyObject

text \<open>The object held by the \<^verbatim>\<open>regex\<close> property of a regex literal. Objects are
  compared by identity in JavaScript: the owner's range stands for the identity.\<close>

record regex_object =
  owner :: range
  pattern :: string
  flags :: string

fun name :: "node \<Rightarrow> string option" where
  "name (Identifier rg nm) = Some nm"
| "name _ = None"

fun callee :: "node \<Rightarrow> node option" where
  "callee (CallExpression rg c args) = Some c"
| "callee (NewExpression rg c args) = Some c"
| "callee _ = None"

fun arguments :: "node \<Rightarrow> node list option" where
  "arguments (CallExpression rg c args) = Some args"
| "arguments (NewExpression rg c args) = Some args"
| "arguments _ = None"

fun object :: "node \<Rightarrow> node option" where
  "object (MemberExpression rg ob p) = Some ob"
| "object _ = None"

fun property :: "node \<Rightarrow> node option" where
  "property (MemberExpression rg ob p) = Some p"
| "property _ = None"

fun raw :: "node \<Rightarrow> string option" where
  "raw (Literal rg r) = Some r"
| "raw (RegExpLiteral rg p f) = Some (''/'' @ p @ ''/'' @ f)"
| "raw _ = None"

fun regex :: "node \<Rightarrow> regex_object option" where
  "regex (RegExpLiteral rg p f) = Some \<lparr>owner = rg, pattern = p, flags = f\<rparr>"
| "regex _ = None"

text \<open>\<^verbatim>\<open>node.type === 'Literal'\<close>\<close>

fun is_Literal :: "node \<Rightarrow> bool" where
  "is_Literal (Literal rg r) = True"
| "is_Literal (RegExpLiteral rg p f) = True"
| "is_Literal _ = False"

text \<open>JavaScript's \<^verbatim>\<open>xs[0]\<close> and \<^verbatim>\<open>xs[1]\<close>: absent out of range.\<close>

fun at0 :: "'a list \<Rightarrow> 'a option" where
  "at0 [] = None"
| "at0 (x # xs) = Some x"

fun at1 :: "'a list \<Rightarrow> 'a option" where
  "at1 (x # y # xs) = Some y"
| "at1 _ = None"

subsection \<open>The host's scope analysis and source text\<close>

text \<open>
  A definition of a variable points to its declaring node; only a variable declarator
  has the property \<^verbatim>\<open>init\<close>, which is absent when the declaration has no
  initializer. A reference that the scope analysis could not resolve has
  \<^verbatim>\<open>resolved = null\<close>.
\<close>

datatype def_node =
    VariableDeclarator "node option"
  | OtherDeclaration

fun init :: "def_node \<Rightarrow> node option" where
  "init (VariableDeclarator i) = i"
| "init OtherDeclaration = None"

record variable =
  defs :: "def_node list"

record reference =
  "identifier" :: node
  resolved :: "variable option"

record scope =
  references :: "reference list"

text \<open>What the rule reads of its \<^verbatim>\<open>context\<close>: the scope of a node and the source text
  of a node (the host answers for an absent node too).\<close>

record rule_context =
  getScope :: "node \<Rightarrow> scope"
  getText :: "node option \<Rightarrow> string"

subsection \<open>findReference and findRootReference\<close>

definition findReference :: "rule_context \<Rightarrow> node \<Rightarrow> def_node option" where
  "findReference ctx node =
     (case List.find (\<lambda>reference. name (identifier reference) = name node)
             (references (getScope ctx node)) of
        None \<Rightarrow> None
      | Some reference \<Rightarrow>
          (case resolved reference of
             None \<Rightarrow> None
           | Some v \<Rightarrow> if defs v = [] then None else Some (last (defs v))))"

text \<open>
  The recursion of \<^verbatim>\<open>findRootReference\<close> follows initializers through the scope
  analysis, so nothing bounds it: a call that never returns has the value \<open>None\<close>.
  A call that returns has the value \<open>Some r\<close>, where \<open>r\<close> is the node returned or
  \<open>None\<close> for \<^verbatim>\<open>undefined\<close>.
\<close>

partial_function (option) findRootReference ::
  "rule_context \<Rightarrow> node option \<Rightarrow> node option option" where
  "findRootReference ctx node =
     (case node of
        None \<Rightarrow> Some None
      | Some n \<Rightarrow>
          (case n of
             Identifier rg nm \<Rightarrow>
               (case findReference ctx n of
                  None \<Rightarrow> Some (Some n)
                | Some reference \<Rightarrow>
                    (case init reference of
                       None \<Rightarrow> Some (Some n)
                     | Some i \<Rightarrow> findRootReference ctx (Some i)))
           | CallExpression rg c args \<Rightarrow> findRootReference ctx (Some c)
           | NewExpression rg c args \<Rightarrow> findRootReference ctx (Some c)
           | MemberExpression rg ob p \<Rightarrow> findRootReference ctx (Some ob)
           | _ \<Rightarrow> Some (Some n)))"

subsection \<open>isRegExp\<close>

text \<open>
  \<^verbatim>\<open>isRegExp\<close> returns \<^verbatim>\<open>false\<close>, \<^verbatim>\<open>true\<close>, or (through
  \<^verbatim>\<open>reference.regex ?? ...\<close>) the \<^verbatim>\<open>regex\<close> object of the literal the lookup
  was traced to. The callers test the result for truth, and \<^verbatim>\<open>equalityHandler\<close>
  compares two results with \<^verbatim>\<open>===\<close>, so the value is kept as it is.
\<close>

datatype js_value = JSBoolean bool | JSObject regex_object

fun truthy :: "js_value \<Rightarrow> bool" where
  "truthy (JSBoolean b) = b"
| "truthy (JSObject ob) = True"

definition isRegExp :: "rule_context \<Rightarrow> node option \<Rightarrow> js_value option" where
  "isRegExp ctx lookup =
     (case lookup of
        None \<Rightarrow> Some (JSBoolean False)
      | Some l \<Rightarrow>
          if regex l \<noteq> None then Some (JSBoolean True)
          else
            (case findRootReference ctx lookup of
               None \<Rightarrow> None
             | Some None \<Rightarrow> Some (JSBoolean False)
             | Some (Some reference) \<Rightarrow>
                 (case regex reference of
                    Some ob \<Rightarrow> Some (JSObject ob)
                  | None \<Rightarrow> Some (JSBoolean (name reference = Some ''RegExp'')))))"

subsection \<open>Findings and fixes\<close>

text \<open>
  A fix is a function that the host calls with a fixer; the model keeps what the call
  returns: the list of edits, or the exception it throws. Reading a property of an absent
  value, and replacing the text of an absent node, throw a \<^verbatim>\<open>TypeError\<close>. The
  elements of the array are evaluated from left to right.
\<close>

datatype error = TypeError

datatype edit = ReplaceText node string

definition replaceText :: "node option \<Rightarrow> string \<Rightarrow> error + edit" where
  "replaceText target replacement =
     (case target of None \<Rightarrow> Inl TypeError | Some n \<Rightarrow> Inr (ReplaceText n replacement))"

fun collect :: "(error + edit) list \<Rightarrow> error + edit list" where
  "collect [] = Inr []"
| "collect (Inl e # rest) = Inl e"
| "collect (Inr x # rest) =
     (case collect rest of Inl e \<Rightarrow> Inl e | Inr xs \<Rightarrow> Inr (x # xs))"

record finding =
  reported :: node
  message :: string
  fix_result :: "error + edit list"

text \<open>What one call of a handler does: it throws, it returns without a report, or it
  reports one finding. A handler that never returns has the value \<open>None\<close>.\<close>

datatype outcome = Threw error | NoReport | Report finding

text \<open>The message of a finding.\<close>

definition message_for :: "string \<Rightarrow> string" where
  "message_for assertion = ''Prefer using the `t.'' @ assertion @ ''()` assertion.''"

subsection \<open>booleanHandler\<close>

definition booleanHandler :: "rule_context \<Rightarrow> node \<Rightarrow> outcome option" where
  "booleanHandler ctx node =
     (case arguments node of
        None \<Rightarrow> Some (Threw TypeError)
      | Some args \<Rightarrow>
     (case at0 args of
        None \<Rightarrow> Some NoReport
      | Some firstArgument \<Rightarrow>
     (case firstArgument of
        CallExpression rg c cargs \<Rightarrow>
          (case property c of
             None \<Rightarrow> Some NoReport
           | Some p \<Rightarrow>
               let nm = name p;
                   lookup =
                     (if nm = Some ''test'' then object c
                      else if nm \<in> {Some ''search'', Some ''match''} then at0 cargs
                      else Some EmptyObject);
                   variable =
                     (if nm = Some ''test'' then at0 cargs
                      else if nm \<in> {Some ''search'', Some ''match''} then object c
                      else Some EmptyObject)
               in
               (case isRegExp ctx lookup of
                  None \<Rightarrow> None
                | Some v \<Rightarrow>
                    if \<not> truthy v then Some NoReport
                    else
                      (case Option.bind (callee node) property of
                         None \<Rightarrow> Some (Threw TypeError)
                       | Some np \<Rightarrow>
                           let assertion =
                                 (if name np \<in> {Some ''true'', Some ''truthy''}
                                  then ''regex'' else ''notRegex'')
                           in Some (Report
                                \<lparr>reported = node,
                                 message = message_for assertion,
                                 fix_result = collect
                                   [replaceText (Some np) assertion,
                                    replaceText (Some firstArgument)
                                      (getText ctx variable @ '', '' @ getText ctx lookup)]\<rparr>))))
      | _ \<Rightarrow> Some NoReport)))"

subsection \<open>equalityHandler\<close>

definition booleanFixer ::
  "rule_context \<Rightarrow> node \<Rightarrow> node option \<Rightarrow> node option \<Rightarrow> node \<Rightarrow> string \<Rightarrow> error + edit list"
  where
  "booleanFixer ctx node firstArgument secondArgument rx assertion =
     collect
       [(case callee node of
           None \<Rightarrow> Inl TypeError
         | Some c \<Rightarrow> replaceText (property c) assertion),
        (case arguments rx of
           None \<Rightarrow> Inl TypeError
         | Some rargs \<Rightarrow> replaceText firstArgument (getText ctx (at0 rargs))),
        (case callee rx of
           None \<Rightarrow> Inl TypeError
         | Some rc \<Rightarrow> replaceText secondArgument (getText ctx (object rc)))]"

definition equalityHandler :: "rule_context \<Rightarrow> node \<Rightarrow> outcome option" where
  "equalityHandler ctx node =
     (case arguments node of
        None \<Rightarrow> Some (Threw TypeError)
      | Some args \<Rightarrow>
     (let firstArgument = at0 args; secondArgument = at1 args in
     (case isRegExp ctx firstArgument of
        None \<Rightarrow> None
      | Some firstArgumentIsRegex \<Rightarrow>
     (case isRegExp ctx secondArgument of
        None \<Rightarrow> None
      | Some secondArgumentIsRegex \<Rightarrow>
          if firstArgumentIsRegex = secondArgumentIsRegex then Some NoReport
          else
            (case (if truthy secondArgumentIsRegex then firstArgument else secondArgument) of
               None \<Rightarrow> Some NoReport
             | Some matchee \<Rightarrow>
                 (case (if truthy secondArgumentIsRegex then secondArgument else firstArgument) of
                    None \<Rightarrow> Some NoReport
                  | Some rx \<Rightarrow>
                      if is_Literal matchee then
                        (if raw matchee = Some ''true'' then
                           Some (Report
                             \<lparr>reported = node, message = message_for ''regex'',
                              fix_result =
                                booleanFixer ctx node firstArgument secondArgument rx ''regex''\<rparr>)
                         else if raw matchee = Some ''false'' then
                           Some (Report
                             \<lparr>reported = node, message = message_for ''notRegex'',
                              fix_result =
                                booleanFixer ctx node firstArgument secondArgument rx ''notRegex''\<rparr>)
                         else Some NoReport)
                      else Some NoReport))))))"

subsection \<open>The visitor\<close>

text \<open>
  The visitor runs on the call expressions of a test file that lie inside a test
  (\<^verbatim>\<open>visitIf\<close> with the two gates of \<^verbatim>\<open>create-ava-rule\<close>). The helper
  \<^verbatim>\<open>util.getNameOfRootNodeObject\<close> is not part of the rule's file and is a parameter.
\<close>

definition booleanTests :: "string option set" where
  "booleanTests = {Some ''true'', Some ''false'', Some ''truthy'', Some ''falsy''}"

definition equalityTests :: "string option set" where
  "equalityTests = {Some ''is'', Some ''deepEqual''}"

fun is_MemberExpression :: "node \<Rightarrow> bool" where
  "is_MemberExpression (MemberExpression rg ob p) = True"
| "is_MemberExpression _ = False"

definition visitCallExpression ::
  "bool \<Rightarrow> bool \<Rightarrow> (node \<Rightarrow> string option) \<Rightarrow> rule_context \<Rightarrow> node \<Rightarrow> outcome option" where
  "visitCallExpression isInTestFile isInTestNode getNameOfRootNodeObject ctx node =
     (if \<not> (isInTestFile \<and> isInTestNode) then Some NoReport
      else
        (case callee node of
           None \<Rightarrow> Some NoReport
         | Some c \<Rightarrow>
             (case property c of
                None \<Rightarrow> Some NoReport
              | Some p \<Rightarrow>
                  let isAssertion =
                        (is_MemberExpression c \<and> getNameOfRootNodeObject c = Some ''t'')
                  in
                  if isAssertion \<and> name p \<in> booleanTests then booleanHandler ctx node
                  else if isAssertion \<and> name p \<in> equalityTests then equalityHandler ctx node
                  else Some NoReport)))"

subsection \<open>The origin tracer as the specification words it\<close>

text \<open>
  The specification's data model: a scope gives, for a name, a reference; a reference
  binds the name to zero or more definitions; a definition has an optional initializer.
  \<open>definitionsOf ctx n\<close> are the definitions bound to the name of \<open>n\<close> by the reference
  of that name in the scope of \<open>n\<close>: none when the scope has no such reference or the
  reference is unresolved. It is written from this data model with \<open>filter\<close>, and
  does not use \<^verbatim>\<open>findReference\<close>.
\<close>

definition definitionsOf :: "rule_context \<Rightarrow> node \<Rightarrow> def_node list" where
  "definitionsOf ctx n =
     (case filter (\<lambda>r. name (identifier r) = name n) (references (getScope ctx n)) of
        [] \<Rightarrow> []
      | r # others \<Rightarrow> (case resolved r of None \<Rightarrow> [] | Some v \<Rightarrow> defs v))"

text \<open>
  The specification gives the tracer by the kind of the node. For an identifier: if a
  definition with an initializer exists, the origin is the origin of the initializer;
  otherwise, or if resolution fails, the identifier itself. The origin of a call or of a
  construction is the origin of its callee; the origin of a member access is the origin
  of its object; a node of any other kind is its own origin. The relation
  \<open>traceOrigin ctx n r\<close> says that following these rules from \<open>n\<close> ends in \<open>r\<close>.
\<close>

inductive traceOrigin :: "rule_context \<Rightarrow> node \<Rightarrow> node \<Rightarrow> bool" for ctx where
  identifier_initializer:
    "d \<in> set (definitionsOf ctx (Identifier rg nm)) \<Longrightarrow> init d = Some i \<Longrightarrow>
     traceOrigin ctx i r \<Longrightarrow> traceOrigin ctx (Identifier rg nm) r"
| identifier_opaque:
    "list_all (\<lambda>d. init d = None) (definitionsOf ctx (Identifier rg nm)) \<Longrightarrow>
     traceOrigin ctx (Identifier rg nm) (Identifier rg nm)"
| call: "traceOrigin ctx c r \<Longrightarrow> traceOrigin ctx (CallExpression rg c args) r"
| construction: "traceOrigin ctx c r \<Longrightarrow> traceOrigin ctx (NewExpression rg c args) r"
| member: "traceOrigin ctx ob r \<Longrightarrow> traceOrigin ctx (MemberExpression rg ob p) r"
| literal: "traceOrigin ctx (Literal rg x) (Literal rg x)"
| regex_literal: "traceOrigin ctx (RegExpLiteral rg pt fl) (RegExpLiteral rg pt fl)"
| other: "traceOrigin ctx (OtherNode rg) (OtherNode rg)"
| empty_object: "traceOrigin ctx EmptyObject EmptyObject"

text \<open>
  The same rules with the identifier rule read on the latest definition only: if the
  last definition of the list has an initializer, the origin is the origin of that
  initializer; if it has none, or there is no definition, the identifier itself.
\<close>

inductive traceOriginLatest :: "rule_context \<Rightarrow> node \<Rightarrow> node \<Rightarrow> bool" for ctx where
  identifier_initializer:
    "definitionsOf ctx (Identifier rg nm) = earlier @ [d] \<Longrightarrow> init d = Some i \<Longrightarrow>
     traceOriginLatest ctx i r \<Longrightarrow> traceOriginLatest ctx (Identifier rg nm) r"
| identifier_no_initializer:
    "definitionsOf ctx (Identifier rg nm) = earlier @ [d] \<Longrightarrow> init d = None \<Longrightarrow>
     traceOriginLatest ctx (Identifier rg nm) (Identifier rg nm)"
| identifier_unresolved:
    "definitionsOf ctx (Identifier rg nm) = [] \<Longrightarrow>
     traceOriginLatest ctx (Identifier rg nm) (Identifier rg nm)"
| call: "traceOriginLatest ctx c r \<Longrightarrow> traceOriginLatest ctx (CallExpression rg c args) r"
| construction: "traceOriginLatest ctx c r \<Longrightarrow> traceOriginLatest ctx (NewExpression rg c args) r"
| member: "traceOriginLatest ctx ob r \<Longrightarrow> traceOriginLatest ctx (MemberExpression rg ob p) r"
| literal: "traceOriginLatest ctx (Literal rg x) (Literal rg x)"
| regex_literal: "traceOriginLatest ctx (RegExpLiteral rg pt fl) (RegExpLiteral rg pt fl)"
| other: "traceOriginLatest ctx (OtherNode rg) (OtherNode rg)"
| empty_object: "traceOriginLatest ctx EmptyObject EmptyObject"

section \<open>Example programs\<close>

text \<open>
  The programs the properties below are evaluated at, with the scopes the host's scope
  analysis gives them. The source text accessor of a context is a parameter.
\<close>

subsection \<open>A variable initialised with itself\<close>

text \<open>
  \<^verbatim>\<open>var x = x; test(t => { t.true(x.test(s)); });\<close>

  The initializer \<^verbatim>\<open>x\<close> (characters 8 to 9) lies in the outer scope, the
  \<^verbatim>\<open>x\<close> of the assertion (characters 30 to 31) in the scope of the arrow function.
  Both references resolve to the one variable \<^verbatim>\<open>x\<close>, whose only definition is
  the declarator with the initializer \<^verbatim>\<open>x\<close>.
\<close>

definition selfInit_variable :: variable where
  "selfInit_variable = \<lparr>defs = [VariableDeclarator (Some (Identifier (8, 9) ''x''))]\<rparr>"

definition selfInit_ctx :: "(node option \<Rightarrow> string) \<Rightarrow> rule_context" where
  "selfInit_ctx gt =
     \<lparr>getScope = (\<lambda>n.
        if n = Identifier (8, 9) ''x'' then
          \<lparr>references =
             [\<lparr>identifier = Identifier (4, 5) ''x'', resolved = Some selfInit_variable\<rparr>,
              \<lparr>identifier = Identifier (8, 9) ''x'', resolved = Some selfInit_variable\<rparr>,
              \<lparr>identifier = Identifier (11, 15) ''test'', resolved = None\<rparr>]\<rparr>
        else
          \<lparr>references =
             [\<lparr>identifier = Identifier (23, 24) ''t'', resolved = Some \<lparr>defs = [OtherDeclaration]\<rparr>\<rparr>,
              \<lparr>identifier = Identifier (30, 31) ''x'', resolved = Some selfInit_variable\<rparr>,
              \<lparr>identifier = Identifier (37, 38) ''s'', resolved = None\<rparr>]\<rparr>),
      getText = gt\<rparr>"

definition selfInit_assertion :: node where
  "selfInit_assertion =
     CallExpression (23, 40)
       (MemberExpression (23, 29) (Identifier (23, 24) ''t'') (Identifier (25, 29) ''true''))
       [CallExpression (30, 39)
          (MemberExpression (30, 36) (Identifier (30, 31) ''x'') (Identifier (32, 36) ''test''))
          [Identifier (37, 38) ''s'']]"

subsection \<open>The source text of a node\<close>

text \<open>
  The examples take the text of a node from the source of the program, as the host does:
  the characters of the node's range, and the whole source for an absent node.
\<close>

fun range_of :: "node \<Rightarrow> range option" where
  "range_of (Identifier rg nm) = Some rg"
| "range_of (Literal rg r) = Some rg"
| "range_of (RegExpLiteral rg p f) = Some rg"
| "range_of (CallExpression rg c args) = Some rg"
| "range_of (NewExpression rg c args) = Some rg"
| "range_of (MemberExpression rg ob p) = Some rg"
| "range_of (OtherNode rg) = Some rg"
| "range_of EmptyObject = None"

definition sourceText :: "string \<Rightarrow> node option \<Rightarrow> string" where
  "sourceText src n =
     (case n of
        None \<Rightarrow> src
      | Some m \<Rightarrow>
          (case range_of m of
             None \<Rightarrow> []
           | Some (a, b) \<Rightarrow> take (b - a) (drop a src)))"

subsection \<open>A regex held by a constant\<close>

text \<open>\<^verbatim>\<open>const p = /ab/; test(t => { t.true(p.test(s)); });\<close>\<close>

definition alias_ctx :: rule_context where
  "alias_ctx =
     \<lparr>getScope = (\<lambda>n.
        \<lparr>references =
           [\<lparr>identifier = Identifier (28, 29) ''t'', resolved = Some \<lparr>defs = [OtherDeclaration]\<rparr>\<rparr>,
            \<lparr>identifier = Identifier (35, 36) ''p'',
              resolved = Some \<lparr>defs = [VariableDeclarator (Some (RegExpLiteral (10, 14) ''ab'' []))]\<rparr>\<rparr>,
            \<lparr>identifier = Identifier (42, 43) ''s'', resolved = None\<rparr>]\<rparr>),
      getText = sourceText ''const p = /ab/; test(t => { t.true(p.test(s)); });''\<rparr>"

definition alias_assertion :: node where
  "alias_assertion =
     CallExpression (28, 45)
       (MemberExpression (28, 34) (Identifier (28, 29) ''t'') (Identifier (30, 34) ''true''))
       [CallExpression (35, 44)
          (MemberExpression (35, 41) (Identifier (35, 36) ''p'') (Identifier (37, 41) ''test''))
          [Identifier (42, 43) ''s'']]"

subsection \<open>A variable declared twice\<close>

text \<open>
  \<^verbatim>\<open>var r = /a/; var r = 's'; test(t => { t.true(r.test(s)); });\<close>

  The variable \<^verbatim>\<open>r\<close> has two definitions, in the order of the declarations.
\<close>

definition redeclared_ctx :: rule_context where
  "redeclared_ctx =
     \<lparr>getScope = (\<lambda>n.
        \<lparr>references =
           [\<lparr>identifier = Identifier (38, 39) ''t'', resolved = Some \<lparr>defs = [OtherDeclaration]\<rparr>\<rparr>,
            \<lparr>identifier = Identifier (45, 46) ''r'',
              resolved = Some
                \<lparr>defs = [VariableDeclarator (Some (RegExpLiteral (8, 11) ''a'' [])),
                         VariableDeclarator (Some (Literal (21, 24) [CHR 0x27, CHR ''s'', CHR 0x27]))]\<rparr>\<rparr>,
            \<lparr>identifier = Identifier (52, 53) ''s'', resolved = None\<rparr>]\<rparr>),
      getText = sourceText ''var r = /a/; var r = 's'; test(t => { t.true(r.test(s)); });''\<rparr>"

subsection \<open>A variable declared again without an initializer\<close>

text \<open>
  \<^verbatim>\<open>var r = /a/; var r; test(t => { t.true(r.test(s)); });\<close>

  The variable \<^verbatim>\<open>r\<close> has two definitions; the second declarator has no initializer.
\<close>

definition redeclaredBare_ctx :: rule_context where
  "redeclaredBare_ctx =
     \<lparr>getScope = (\<lambda>n.
        \<lparr>references =
           [\<lparr>identifier = Identifier (32, 33) ''t'', resolved = Some \<lparr>defs = [OtherDeclaration]\<rparr>\<rparr>,
            \<lparr>identifier = Identifier (39, 40) ''r'',
              resolved = Some
                \<lparr>defs = [VariableDeclarator (Some (RegExpLiteral (8, 11) ''a'' [])),
                         VariableDeclarator None]\<rparr>\<rparr>,
            \<lparr>identifier = Identifier (46, 47) ''s'', resolved = None\<rparr>]\<rparr>),
      getText = sourceText ''var r = /a/; var r; test(t => { t.true(r.test(s)); });''\<rparr>"

subsection \<open>Single assertions\<close>

text \<open>A context for a fragment whose identifiers the scope analysis does not know.\<close>

definition unresolved_ctx :: "string \<Rightarrow> rule_context" where
  "unresolved_ctx src = \<lparr>getScope = (\<lambda>n. \<lparr>references = []\<rparr>), getText = sourceText src\<rparr>"

text \<open>\<^verbatim>\<open>t.is(/a/, true);\<close>\<close>

definition literalSide_assertion :: node where
  "literalSide_assertion =
     CallExpression (0, 15)
       (MemberExpression (0, 4) (Identifier (0, 1) ''t'') (Identifier (2, 4) ''is''))
       [RegExpLiteral (5, 8) ''a'' [], Literal (10, 14) ''true'']"

text \<open>\<^verbatim>\<open>t.true(/x/.test());\<close>\<close>

definition noArgument_assertion :: node where
  "noArgument_assertion =
     CallExpression (0, 18)
       (MemberExpression (0, 6) (Identifier (0, 1) ''t'') (Identifier (2, 6) ''true''))
       [CallExpression (7, 17)
          (MemberExpression (7, 15) (RegExpLiteral (7, 10) ''x'' []) (Identifier (11, 15) ''test''))
          []]"

text \<open>\<^verbatim>\<open>t.true(s.match(/x/));\<close>\<close>

definition match_assertion :: node where
  "match_assertion =
     CallExpression (0, 20)
       (MemberExpression (0, 6) (Identifier (0, 1) ''t'') (Identifier (2, 6) ''true''))
       [CallExpression (7, 19)
          (MemberExpression (7, 14) (Identifier (7, 8) ''s'') (Identifier (9, 14) ''match''))
          [RegExpLiteral (15, 18) ''x'' []]]"

text \<open>\<^verbatim>\<open>t.true(x.exec(y));\<close>\<close>

definition exec_assertion :: node where
  "exec_assertion =
     CallExpression (0, 17)
       (MemberExpression (0, 6) (Identifier (0, 1) ''t'') (Identifier (2, 6) ''true''))
       [CallExpression (7, 16)
          (MemberExpression (7, 13) (Identifier (7, 8) ''x'') (Identifier (9, 13) ''exec''))
          [Identifier (14, 15) ''y'']]"

text \<open>\<^verbatim>\<open>t.is(/a/.test(s), new RegExp(b));\<close>\<close>

definition mixed_assertion :: node where
  "mixed_assertion =
     CallExpression (0, 32)
       (MemberExpression (0, 4) (Identifier (0, 1) ''t'') (Identifier (2, 4) ''is''))
       [CallExpression (5, 16)
          (MemberExpression (5, 13) (RegExpLiteral (5, 8) ''a'' []) (Identifier (9, 13) ''test''))
          [Identifier (14, 15) ''s''],
        NewExpression (18, 31) (Identifier (22, 28) ''RegExp'') [Identifier (29, 30) ''b'']]"

section \<open>Properties\<close>

subsection \<open>The equations of findRootReference\<close>

lemma findRootReference_absent: "findRootReference ctx None = Some None"
  by (simp add: findRootReference.simps)

lemma findRootReference_Identifier:
  "findRootReference ctx (Some (Identifier rg nm)) =
     (case findReference ctx (Identifier rg nm) of
        None \<Rightarrow> Some (Some (Identifier rg nm))
      | Some d \<Rightarrow>
          (case init d of
             None \<Rightarrow> Some (Some (Identifier rg nm))
           | Some i \<Rightarrow> findRootReference ctx (Some i)))"
  by (subst findRootReference.simps) simp

lemma findRootReference_CallExpression:
  "findRootReference ctx (Some (CallExpression rg c args)) = findRootReference ctx (Some c)"
  by (subst findRootReference.simps) simp

lemma findRootReference_NewExpression:
  "findRootReference ctx (Some (NewExpression rg c args)) = findRootReference ctx (Some c)"
  by (subst findRootReference.simps) simp

lemma findRootReference_MemberExpression:
  "findRootReference ctx (Some (MemberExpression rg ob p)) = findRootReference ctx (Some ob)"
  by (subst findRootReference.simps) simp

lemma findRootReference_Literal:
  "findRootReference ctx (Some (Literal rg r)) = Some (Some (Literal rg r))"
  by (subst findRootReference.simps) simp

lemma findRootReference_RegExpLiteral:
  "findRootReference ctx (Some (RegExpLiteral rg p f)) = Some (Some (RegExpLiteral rg p f))"
  by (subst findRootReference.simps) simp

lemma findRootReference_OtherNode:
  "findRootReference ctx (Some (OtherNode rg)) = Some (Some (OtherNode rg))"
  by (subst findRootReference.simps) simp

lemma findRootReference_EmptyObject:
  "findRootReference ctx (Some EmptyObject) = Some (Some EmptyObject)"
  by (subst findRootReference.simps) simp

lemmas findRootReference_eqs =
  findRootReference_absent findRootReference_Identifier findRootReference_CallExpression
  findRootReference_NewExpression findRootReference_MemberExpression
  findRootReference_Literal findRootReference_RegExpLiteral findRootReference_OtherNode
  findRootReference_EmptyObject

subsection \<open>findReference\<close>

text \<open>
  Claim C10. When the reference found for an identifier is resolved to a variable with
  several definitions, \<^verbatim>\<open>findReference\<close> returns the node of the last definition
  of the host's list, and the tracer goes on from that definition: through its
  initializer when it has one, and it returns the identifier itself otherwise.
\<close>

theorem findReference_last_definition:
  assumes "List.find (\<lambda>reference. name (identifier reference) = Some nm)
             (references (getScope ctx (Identifier rg nm))) = Some ref"
    and "resolved ref = Some v"
    and "defs v = earlier @ [d]"
  shows "findReference ctx (Identifier rg nm) = Some d \<and>
         findRootReference ctx (Some (Identifier rg nm)) =
           (case init d of
              None \<Rightarrow> Some (Some (Identifier rg nm))
            | Some i \<Rightarrow> findRootReference ctx (Some i))"
proof -
  have "findReference ctx (Identifier rg nm) = Some d"
    using assms by (simp add: findReference_def)
  then show ?thesis
    by (simp add: findRootReference_Identifier)
qed

text \<open>After \<^verbatim>\<open>var r = /a/; var r = 's';\<close> the identifier \<^verbatim>\<open>r\<close> is traced to
  the string of the second declaration, and is not classified as a regex.\<close>

theorem findReference_last_definition_witness:
  "findReference redeclared_ctx (Identifier (45, 46) ''r'') =
     Some (VariableDeclarator (Some (Literal (21, 24) [CHR 0x27, CHR ''s'', CHR 0x27]))) \<and>
   findRootReference redeclared_ctx (Some (Identifier (45, 46) ''r'')) =
     Some (Some (Literal (21, 24) [CHR 0x27, CHR ''s'', CHR 0x27])) \<and>
   isRegExp redeclared_ctx (Some (Identifier (45, 46) ''r'')) = Some (JSBoolean False)"
proof -
  have tr: "findReference redeclared_ctx (Identifier (45, 46) ''r'') =
     Some (VariableDeclarator (Some (Literal (21, 24) [CHR 0x27, CHR ''s'', CHR 0x27]))) \<and>
   findRootReference redeclared_ctx (Some (Identifier (45, 46) ''r'')) =
     Some (Some (Literal (21, 24) [CHR 0x27, CHR ''s'', CHR 0x27]))"
    using findReference_last_definition[of "''r''" redeclared_ctx "(45, 46)"
      "\<lparr>identifier = Identifier (45, 46) ''r'',
        resolved = Some
          \<lparr>defs = [VariableDeclarator (Some (RegExpLiteral (8, 11) ''a'' [])),
                   VariableDeclarator (Some (Literal (21, 24) [CHR 0x27, CHR ''s'', CHR 0x27]))]\<rparr>\<rparr>"
      "\<lparr>defs = [VariableDeclarator (Some (RegExpLiteral (8, 11) ''a'' [])),
                   VariableDeclarator (Some (Literal (21, 24) [CHR 0x27, CHR ''s'', CHR 0x27]))]\<rparr>"
      "[VariableDeclarator (Some (RegExpLiteral (8, 11) ''a'' []))]"
      "VariableDeclarator (Some (Literal (21, 24) [CHR 0x27, CHR ''s'', CHR 0x27]))"]
    by (simp add: redeclared_ctx_def findRootReference_Literal)
  then show ?thesis
    by (simp add: isRegExp_def)
qed

subsection \<open>The tracer and its specification\<close>

text \<open>\<^verbatim>\<open>findReference\<close> returns the node of the last of the definitions bound to the
  name, and nothing when there is none.\<close>

lemma find_filter:
  "List.find P xs = (case filter P xs of [] \<Rightarrow> None | x # others \<Rightarrow> Some x)"
  by (induction xs) auto

lemma findReference_no_definition:
  "definitionsOf ctx n = [] \<Longrightarrow> findReference ctx n = None"
  by (auto simp: findReference_def definitionsOf_def find_filter split: list.splits option.splits)

lemma findReference_latest_definition:
  "definitionsOf ctx n = earlier @ [d] \<Longrightarrow> findReference ctx n = Some d"
  by (auto simp: findReference_def definitionsOf_def find_filter split: list.splits option.splits)

lemma traceOriginLatest_findRootReference:
  "traceOriginLatest ctx n r \<Longrightarrow> findRootReference ctx (Some n) = Some (Some r)"
  by (induction rule: traceOriginLatest.induct)
    (simp_all add: findRootReference_eqs findReference_no_definition
      findReference_latest_definition)

lemma findRootReference_traceOriginLatest:
  assumes "findRootReference ctx (Some n) = Some y"
  shows "\<exists>r. y = Some r \<and> traceOriginLatest ctx n r"
proof -
  have "\<forall>m. Some n = Some m \<longrightarrow> (\<exists>r. y = Some r \<and> traceOriginLatest ctx m r)"
  proof (rule findRootReference.raw_induct
      [where P = "\<lambda>c node y. \<forall>n. node = Some n \<longrightarrow> (\<exists>r. y = Some r \<and> traceOriginLatest c n r)",
        OF _ assms])
    fix f c node y
    assume ih: "\<And>c node y. f c node = Some y \<Longrightarrow>
        \<forall>n. node = Some n \<longrightarrow> (\<exists>r. y = Some r \<and> traceOriginLatest c n r)"
      and eq: "(case node of
           None \<Rightarrow> Some None
         | Some m \<Rightarrow>
             (case m of
                Identifier rg nm \<Rightarrow>
                  (case findReference c m of
                     None \<Rightarrow> Some (Some m)
                   | Some reference \<Rightarrow>
                       (case init reference of
                          None \<Rightarrow> Some (Some m)
                        | Some i \<Rightarrow> f c (Some i)))
              | CallExpression rg ca args \<Rightarrow> f c (Some ca)
              | NewExpression rg ca args \<Rightarrow> f c (Some ca)
              | MemberExpression rg ob p \<Rightarrow> f c (Some ob)
              | _ \<Rightarrow> Some (Some m))) = Some y"
    show "\<forall>n. node = Some n \<longrightarrow> (\<exists>r. y = Some r \<and> traceOriginLatest c n r)"
    proof (intro allI impI)
      fix n assume n: "node = Some n"
      show "\<exists>r. y = Some r \<and> traceOriginLatest c n r"
      proof (cases n)
        case (Identifier rg nm)
        show ?thesis
        proof (cases "definitionsOf c n" rule: rev_cases)
          case Nil
          then have "findReference c n = None"
            by (rule findReference_no_definition)
          with eq n Identifier Nil show ?thesis
            by (auto intro: traceOriginLatest.identifier_unresolved)
        next
          case (snoc earlier d)
          then have d: "findReference c n = Some d"
            by (rule findReference_latest_definition)
          show ?thesis
          proof (cases "init d")
            case None
            with eq n Identifier d snoc show ?thesis
              by (auto intro: traceOriginLatest.identifier_no_initializer)
          next
            case (Some i)
            with eq n Identifier d have "f c (Some i) = Some y" by simp
            from ih[OF this] obtain r where "y = Some r" "traceOriginLatest c i r" by auto
            with Identifier Some snoc show ?thesis
              by (auto intro: traceOriginLatest.identifier_initializer)
          qed
        qed
      next
        case (CallExpression rg ca args)
        with eq n have "f c (Some ca) = Some y" by simp
        from ih[OF this] CallExpression show ?thesis
          by (auto intro: traceOriginLatest.call)
      next
        case (NewExpression rg ca args)
        with eq n have "f c (Some ca) = Some y" by simp
        from ih[OF this] NewExpression show ?thesis
          by (auto intro: traceOriginLatest.construction)
      next
        case (MemberExpression rg ob p)
        with eq n have "f c (Some ob) = Some y" by simp
        from ih[OF this] MemberExpression show ?thesis
          by (auto intro: traceOriginLatest.member)
      qed (use eq n in \<open>auto intro: traceOriginLatest.intros\<close>)
    qed
  qed
  then show ?thesis by simp
qed

inductive_cases traceOrigin_IdentifierE: "traceOrigin ctx (Identifier rg nm) r"

inductive_cases traceOrigin_RegExpLiteralE: "traceOrigin ctx (RegExpLiteral rg pt fl) r"

lemma redeclaredBare_definitionsOf:
  "definitionsOf redeclaredBare_ctx (Identifier (39, 40) ''r'') =
     [VariableDeclarator (Some (RegExpLiteral (8, 11) ''a'' [])), VariableDeclarator None]"
  by (simp add: definitionsOf_def redeclaredBare_ctx_def)

text \<open>
  Claim C9 says that an identifier is traced through the initializer if a definition
  with an initializer exists. After \<^verbatim>\<open>var r = /a/; var r;\<close> a definition of
  \<^verbatim>\<open>r\<close> with an initializer exists, and the rules of the specification lead from
  \<^verbatim>\<open>r\<close> to \<^verbatim>\<open>/a/\<close> and not to \<^verbatim>\<open>r\<close>; the tracer returns \<^verbatim>\<open>r\<close>
  itself, since the last definition has no initializer.
\<close>

theorem traceOrigin_any_definition_counterexample:
  "traceOrigin redeclaredBare_ctx (Identifier (39, 40) ''r'') (RegExpLiteral (8, 11) ''a'' []) \<and>
   \<not> traceOrigin redeclaredBare_ctx (Identifier (39, 40) ''r'') (Identifier (39, 40) ''r'') \<and>
   findRootReference redeclaredBare_ctx (Some (Identifier (39, 40) ''r'')) =
     Some (Some (Identifier (39, 40) ''r''))"
proof (intro conjI)
  show "traceOrigin redeclaredBare_ctx (Identifier (39, 40) ''r'') (RegExpLiteral (8, 11) ''a'' [])"
    by (rule traceOrigin.identifier_initializer
        [where d = "VariableDeclarator (Some (RegExpLiteral (8, 11) ''a'' []))"])
      (auto simp: redeclaredBare_definitionsOf intro: traceOrigin.regex_literal)
  show "\<not> traceOrigin redeclaredBare_ctx (Identifier (39, 40) ''r'') (Identifier (39, 40) ''r'')"
  proof
    assume "traceOrigin redeclaredBare_ctx (Identifier (39, 40) ''r'') (Identifier (39, 40) ''r'')"
    then show False
      by (rule traceOrigin_IdentifierE)
        (auto simp: redeclaredBare_definitionsOf elim: traceOrigin_RegExpLiteralE)
  qed
  have "findReference redeclaredBare_ctx (Identifier (39, 40) ''r'') = Some (VariableDeclarator None)"
    by (rule findReference_latest_definition
        [where earlier = "[VariableDeclarator (Some (RegExpLiteral (8, 11) ''a'' []))]"])
      (simp add: redeclaredBare_definitionsOf)
  then show "findRootReference redeclaredBare_ctx (Some (Identifier (39, 40) ''r'')) =
     Some (Some (Identifier (39, 40) ''r''))"
    by (simp add: findRootReference_Identifier)
qed

text \<open>
  Claim C9, amended. For every node, a call of the origin tracer returns exactly when
  the kind-directed rules, with the identifier rule read on the latest definition, reach
  an origin, and it returns that origin: an identifier whose name the scope binds to
  definitions, the last of which has an initializer, is traced through that initializer;
  an identifier whose last definition has no initializer, or which has no definition, is
  returned itself; a call or a construction is traced through its callee and a member
  access through its object, whatever the arguments and the property are; a node of
  another kind is returned unchanged. The tracer never returns \<^verbatim>\<open>undefined\<close> for a
  node.
\<close>

theorem findRootReference_follows_latest_definition:
  "(findRootReference ctx (Some n) = Some y) = (\<exists>r. y = Some r \<and> traceOriginLatest ctx n r)"
  using findRootReference_traceOriginLatest[of ctx n y] traceOriginLatest_findRootReference[of ctx n]
  by auto

text \<open>In \<^verbatim>\<open>const p = /ab/; ... p.test(s)\<close> the rules lead from \<^verbatim>\<open>p\<close> through
  the initializer to \<^verbatim>\<open>/ab/\<close>, which is therefore what the tracer returns.\<close>

theorem findRootReference_follows_latest_definition_witness:
  "traceOriginLatest alias_ctx (Identifier (35, 36) ''p'') (RegExpLiteral (10, 14) ''ab'' []) \<and>
   findRootReference alias_ctx (Some (Identifier (35, 36) ''p'')) =
     Some (Some (RegExpLiteral (10, 14) ''ab'' []))"
proof -
  have defs: "definitionsOf alias_ctx (Identifier (35, 36) ''p'') =
      [] @ [VariableDeclarator (Some (RegExpLiteral (10, 14) ''ab'' []))]"
    by (simp add: definitionsOf_def alias_ctx_def)
  have rel: "traceOriginLatest alias_ctx (Identifier (35, 36) ''p'') (RegExpLiteral (10, 14) ''ab'' [])"
    by (rule traceOriginLatest.identifier_initializer[OF defs])
      (auto intro: traceOriginLatest.regex_literal)
  with findRootReference_follows_latest_definition[of alias_ctx "Identifier (35, 36) ''p''"
      "Some (RegExpLiteral (10, 14) ''ab'' [])"]
  show ?thesis by simp
qed

subsection \<open>Termination of the tracer\<close>

text \<open>Where no identifier resolves to a definition with an initializer, every step goes
  to a child of the node, and the tracer returns a node.\<close>

lemma findRootReference_returns_without_initializer:
  assumes "\<And>rg nm d. findReference ctx (Identifier rg nm) = Some d \<Longrightarrow> init d = None"
  shows "\<exists>r. findRootReference ctx (Some n) = Some (Some r)"
proof (induction n)
  case (Identifier rg nm)
  show ?case
  proof (cases "findReference ctx (Identifier rg nm)")
    case None
    then show ?thesis by (simp add: findRootReference_Identifier)
  next
    case (Some d)
    with assms[OF Some] show ?thesis by (simp add: findRootReference_Identifier)
  qed
qed (simp_all add: findRootReference_eqs)

text \<open>An identifier whose definition is initialised with that same identifier node is
  traced for ever.\<close>

lemma findRootReference_self_initializer:
  assumes "findReference ctx (Identifier rg nm) = Some d" and "init d = Some (Identifier rg nm)"
  shows "findRootReference ctx (Some (Identifier rg nm)) = None"
proof (rule ccontr)
  assume "findRootReference ctx (Some (Identifier rg nm)) \<noteq> None"
  then obtain y where y: "findRootReference ctx (Some (Identifier rg nm)) = Some y" by auto
  have "\<not> (ctx = ctx \<and> Some (Identifier rg nm) = Some (Identifier rg nm))"
  proof (rule findRootReference.raw_induct
      [where P = "\<lambda>c n r. \<not> (c = ctx \<and> n = Some (Identifier rg nm))", OF _ y])
    fix f c n r
    assume ih: "\<And>c n r. f c n = Some r \<Longrightarrow> \<not> (c = ctx \<and> n = Some (Identifier rg nm))"
      and eq: "(case n of
           None \<Rightarrow> Some None
         | Some m \<Rightarrow>
             (case m of
                Identifier rg nm \<Rightarrow>
                  (case findReference c m of
                     None \<Rightarrow> Some (Some m)
                   | Some reference \<Rightarrow>
                       (case init reference of
                          None \<Rightarrow> Some (Some m)
                        | Some i \<Rightarrow> f c (Some i)))
              | CallExpression rg ca args \<Rightarrow> f c (Some ca)
              | NewExpression rg ca args \<Rightarrow> f c (Some ca)
              | MemberExpression rg ob p \<Rightarrow> f c (Some ob)
              | _ \<Rightarrow> Some (Some m))) = Some r"
    show "\<not> (c = ctx \<and> n = Some (Identifier rg nm))"
    proof
      assume a: "c = ctx \<and> n = Some (Identifier rg nm)"
      with eq assms have "f ctx (Some (Identifier rg nm)) = Some r"
        by simp
      from ih[OF this] show False by simp
    qed
  qed
  then show False by simp
qed

lemma selfInit_findReference:
  "findReference (selfInit_ctx gt) (Identifier rg ''x'') =
     Some (VariableDeclarator (Some (Identifier (8, 9) ''x'')))"
  by (simp add: findReference_def selfInit_ctx_def selfInit_variable_def)

text \<open>
  Claim C2 says that the origin tracer terminates on every input, in particular on an
  identifier whose initializer mentions the same identifier. Evaluated at
  \<^verbatim>\<open>var x = x; test(t => { t.true(x.test(s)); });\<close> the tracer does not return:
  neither does the classifier, the handler, nor the visitor of the assertion.
\<close>

theorem selfInit_never_returns:
  "findRootReference (selfInit_ctx gt) (Some (Identifier (30, 31) ''x'')) = None \<and>
   isRegExp (selfInit_ctx gt) (Some (Identifier (30, 31) ''x'')) = None \<and>
   booleanHandler (selfInit_ctx gt) selfInit_assertion = None \<and>
   visitCallExpression True True (\<lambda>c. Some ''t'') (selfInit_ctx gt) selfInit_assertion = None"
proof -
  have loop: "findRootReference (selfInit_ctx gt) (Some (Identifier (8, 9) ''x'')) = None"
    by (rule findRootReference_self_initializer[OF selfInit_findReference]) simp
  have use: "findRootReference (selfInit_ctx gt) (Some (Identifier (30, 31) ''x'')) = None"
    by (subst findRootReference_Identifier) (simp add: selfInit_findReference loop)
  have cls: "isRegExp (selfInit_ctx gt) (Some (Identifier (30, 31) ''x'')) = None"
    by (simp add: isRegExp_def use)
  have bh: "booleanHandler (selfInit_ctx gt) selfInit_assertion = None"
    by (simp add: booleanHandler_def selfInit_assertion_def cls)
  have "visitCallExpression True True (\<lambda>c. Some ''t'') (selfInit_ctx gt) selfInit_assertion =
        booleanHandler (selfInit_ctx gt) selfInit_assertion"
    by (simp add: visitCallExpression_def selfInit_assertion_def booleanTests_def)
  with use cls bh show ?thesis by simp
qed

subsection \<open>The classifier\<close>

lemma name_RegExp: "(name r = Some nm) = (\<exists>rg. r = Identifier rg nm)"
  by (cases r) auto

lemma regex_None: "(regex r = None) = (\<not> (\<exists>rg p f. r = RegExpLiteral rg p f))"
  by (cases r) auto

lemma regex_SomeD: "regex r = Some ob \<Longrightarrow> \<exists>rg p f. r = RegExpLiteral rg p f"
  by (cases r) auto

text \<open>
  Claim C8. Read as a truth value, the result of the classifier is false for an absent
  node and true for a regex literal; for any other node it is decided by the traced
  origin: true exactly when the origin exists and is a regex literal or an identifier
  named \<^verbatim>\<open>RegExp\<close>, false otherwise. (The classifier returns when the tracer
  does.)
\<close>

theorem isRegExp_as_predicate:
  "map_option truthy (isRegExp ctx lookup) =
     (case lookup of
        None \<Rightarrow> Some False
      | Some l \<Rightarrow>
          if \<exists>rg p f. l = RegExpLiteral rg p f then Some True
          else map_option
                 (\<lambda>origin. case origin of
                    None \<Rightarrow> False
                  | Some r \<Rightarrow> (\<exists>rg p f. r = RegExpLiteral rg p f) \<or> (\<exists>rg. r = Identifier rg ''RegExp''))
                 (findRootReference ctx lookup))"
proof (cases lookup)
  case None
  then show ?thesis by (simp add: isRegExp_def)
next
  case (Some l)
  show ?thesis
  proof (cases "\<exists>rg p f. l = RegExpLiteral rg p f")
    case True
    then show ?thesis using Some by (auto simp: isRegExp_def)
  next
    case False
    then have l: "regex l = None" by (simp add: regex_None)
    show ?thesis
    proof (cases "findRootReference ctx (Some l)")
      case None
      then show ?thesis using Some l False by (simp add: isRegExp_def)
    next
      case origin: (Some origin)
      show ?thesis
      proof (cases origin)
        case None
        then show ?thesis using Some l False origin by (simp add: isRegExp_def)
      next
        case r: (Some r)
        show ?thesis
        proof (cases "regex r")
          case None
          then show ?thesis using Some l False origin r
            by (simp add: isRegExp_def name_RegExp) (simp add: regex_None)
        next
          case (Some ob)
          from regex_SomeD[OF this] Some show ?thesis using \<open>lookup = Some l\<close> l False origin r
            by (simp add: isRegExp_def)
        qed
      qed
    qed
  qed
qed

subsection \<open>The classifier on the nodes that end a trace\<close>

lemma isRegExp_absent: "isRegExp ctx None = Some (JSBoolean False)"
  by (simp add: isRegExp_def)

lemma isRegExp_RegExpLiteral: "isRegExp ctx (Some (RegExpLiteral rg p f)) = Some (JSBoolean True)"
  by (simp add: isRegExp_def)

lemma isRegExp_Literal: "isRegExp ctx (Some (Literal rg r)) = Some (JSBoolean False)"
  by (simp add: isRegExp_def findRootReference_Literal)

lemma isRegExp_EmptyObject: "isRegExp ctx (Some EmptyObject) = Some (JSBoolean False)"
  by (simp add: isRegExp_def findRootReference_EmptyObject)

lemma not_truthy: "(\<not> truthy v) = (v = JSBoolean False)"
  by (cases v) auto

subsection \<open>booleanHandler\<close>

text \<open>
  Claim C4. For every call \<^verbatim>\<open>t.a(r.test(s))\<close> in which \<^verbatim>\<open>r\<close> is classified as a
  regex, \<^verbatim>\<open>booleanHandler\<close> reports the call, and the fix replaces the property
  \<^verbatim>\<open>a\<close> of the assertion by the target assertion and the text of the inner call by
  the text of \<^verbatim>\<open>s\<close>, a comma and a blank, and the text of \<^verbatim>\<open>r\<close>. The target is
  \<^verbatim>\<open>regex\<close> for \<^verbatim>\<open>true\<close> and \<^verbatim>\<open>truthy\<close>, and \<^verbatim>\<open>notRegex\<close> for
  \<^verbatim>\<open>false\<close> and \<^verbatim>\<open>falsy\<close>.
\<close>

theorem booleanHandler_test_call:
  assumes "isRegExp ctx (Some r) = Some v" and "truthy v"
    and "a \<in> {''true'', ''truthy''} \<and> target = ''regex'' \<or>
         a \<in> {''false'', ''falsy''} \<and> target = ''notRegex''"
  shows "booleanHandler ctx
           (CallExpression rg (MemberExpression rg1 t (Identifier rg2 a))
              (CallExpression rg3 (MemberExpression rg4 r (Identifier rg5 ''test'')) (s # others)
               # rest)) =
         Some (Report
           \<lparr>reported =
              CallExpression rg (MemberExpression rg1 t (Identifier rg2 a))
                (CallExpression rg3 (MemberExpression rg4 r (Identifier rg5 ''test'')) (s # others)
                 # rest),
            message = message_for target,
            fix_result = Inr
              [ReplaceText (Identifier rg2 a) target,
               ReplaceText
                 (CallExpression rg3 (MemberExpression rg4 r (Identifier rg5 ''test''))
                    (s # others))
                 (getText ctx (Some s) @ '', '' @ getText ctx (Some r))]\<rparr>)"
  using assms by (auto simp: booleanHandler_def replaceText_def Let_def)

text \<open>\<^verbatim>\<open>const p = /ab/; ... t.true(p.test(s))\<close> is fixed to
  \<^verbatim>\<open>t.regex(s, p)\<close>.\<close>

theorem booleanHandler_test_call_witness:
  "isRegExp alias_ctx (Some (Identifier (35, 36) ''p'')) =
     Some (JSObject \<lparr>owner = (10, 14), pattern = ''ab'', flags = []\<rparr>) \<and>
   booleanHandler alias_ctx alias_assertion =
     Some (Report
       \<lparr>reported = alias_assertion,
        message = ''Prefer using the `t.regex()` assertion.'',
        fix_result = Inr
          [ReplaceText (Identifier (30, 34) ''true'') ''regex'',
           ReplaceText
             (CallExpression (35, 44)
                (MemberExpression (35, 41) (Identifier (35, 36) ''p'') (Identifier (37, 41) ''test''))
                [Identifier (42, 43) ''s''])
             ''s, p'']\<rparr>)"
proof -
  have cls: "isRegExp alias_ctx (Some (Identifier (35, 36) ''p'')) =
      Some (JSObject \<lparr>owner = (10, 14), pattern = ''ab'', flags = []\<rparr>)"
    by (simp add: isRegExp_def findRootReference_eqs findReference_def alias_ctx_def)
  have texts: "getText alias_ctx (Some (Identifier (42, 43) ''s'')) = ''s''"
    "getText alias_ctx (Some (Identifier (35, 36) ''p'')) = ''p''"
    by (simp_all add: alias_ctx_def sourceText_def)
  from booleanHandler_test_call[OF cls, of "''true''" "''regex''" "(28, 45)" "(28, 34)"
      "Identifier (28, 29) ''t''" "(30, 34)" "(35, 44)" "(35, 41)" "(37, 41)"
      "Identifier (42, 43) ''s''" "[]" "[]"]
  show ?thesis
    by (simp add: cls alias_assertion_def message_for_def texts)
qed

text \<open>
  Claim C5. For every call \<^verbatim>\<open>t.true(s.match(r))\<close> or \<^verbatim>\<open>t.true(s.search(r))\<close> in
  which \<^verbatim>\<open>r\<close> is classified as a regex, the argument of the inner call is the regex
  and the object of its callee is the string: the fix replaces \<^verbatim>\<open>true\<close> by
  \<^verbatim>\<open>regex\<close> and the inner call by the text of \<^verbatim>\<open>s\<close>, a comma and a blank, and
  the text of \<^verbatim>\<open>r\<close>.
\<close>

theorem booleanHandler_match_search_call:
  assumes "isRegExp ctx (Some r) = Some v" and "truthy v"
    and "m \<in> {''match'', ''search''}"
  shows "booleanHandler ctx
           (CallExpression rg (MemberExpression rg1 t (Identifier rg2 ''true''))
              (CallExpression rg3 (MemberExpression rg4 s (Identifier rg5 m)) (r # others)
               # rest)) =
         Some (Report
           \<lparr>reported =
              CallExpression rg (MemberExpression rg1 t (Identifier rg2 ''true''))
                (CallExpression rg3 (MemberExpression rg4 s (Identifier rg5 m)) (r # others)
                 # rest),
            message = message_for ''regex'',
            fix_result = Inr
              [ReplaceText (Identifier rg2 ''true'') ''regex'',
               ReplaceText
                 (CallExpression rg3 (MemberExpression rg4 s (Identifier rg5 m)) (r # others))
                 (getText ctx (Some s) @ '', '' @ getText ctx (Some r))]\<rparr>)"
  using assms by (auto simp: booleanHandler_def replaceText_def Let_def)

text \<open>\<^verbatim>\<open>t.true(s.match(/x/))\<close> is fixed to \<^verbatim>\<open>t.regex(s, /x/)\<close>.\<close>

theorem booleanHandler_match_search_call_witness:
  "isRegExp (unresolved_ctx ''t.true(s.match(/x/));'') (Some (RegExpLiteral (15, 18) ''x'' [])) =
     Some (JSBoolean True) \<and>
   booleanHandler (unresolved_ctx ''t.true(s.match(/x/));'') match_assertion =
     Some (Report
       \<lparr>reported = match_assertion,
        message = ''Prefer using the `t.regex()` assertion.'',
        fix_result = Inr
          [ReplaceText (Identifier (2, 6) ''true'') ''regex'',
           ReplaceText
             (CallExpression (7, 19)
                (MemberExpression (7, 14) (Identifier (7, 8) ''s'') (Identifier (9, 14) ''match''))
                [RegExpLiteral (15, 18) ''x'' []])
             ''s, /x/'']\<rparr>)"
proof -
  have cls: "isRegExp (unresolved_ctx ''t.true(s.match(/x/));'')
      (Some (RegExpLiteral (15, 18) ''x'' [])) = Some (JSBoolean True)"
    by (simp add: isRegExp_def)
  have texts: "getText (unresolved_ctx ''t.true(s.match(/x/));'') (Some (Identifier (7, 8) ''s'')) = ''s''"
    "getText (unresolved_ctx ''t.true(s.match(/x/));'') (Some (RegExpLiteral (15, 18) ''x'' [])) = ''/x/''"
    by (simp_all add: unresolved_ctx_def sourceText_def)
  from booleanHandler_match_search_call[OF cls, of "''match''" "(0, 20)" "(0, 6)"
      "Identifier (0, 1) ''t''" "(2, 6)" "(7, 19)" "(7, 14)" "Identifier (7, 8) ''s''" "(9, 14)"
      "[]" "[]"]
  show ?thesis
    by (simp add: cls match_assertion_def message_for_def texts)
qed

text \<open>
  Claim C6. For every assertion whose first argument is a call \<^verbatim>\<open>x.m(y)\<close> with a
  method name \<^verbatim>\<open>m\<close> other than \<^verbatim>\<open>test\<close>, \<^verbatim>\<open>match\<close> and \<^verbatim>\<open>search\<close>
  (or with a property that has no name), \<^verbatim>\<open>booleanHandler\<close> reports nothing: the
  lookup stays the empty object, which is not classified as a regex.
\<close>

theorem booleanHandler_other_method:
  assumes "name p \<notin> {Some ''test'', Some ''match'', Some ''search''}"
  shows "booleanHandler ctx
           (CallExpression rg c (CallExpression rg' (MemberExpression rg'' x p) ys # rest)) =
         Some NoReport"
  using assms by (simp add: booleanHandler_def isRegExp_EmptyObject Let_def)

theorem booleanHandler_other_method_witness:
  "name (Identifier (9, 13) ''exec'') \<notin> {Some ''test'', Some ''match'', Some ''search''} \<and>
   booleanHandler (unresolved_ctx ''t.true(x.exec(y));'') exec_assertion = Some NoReport"
  using booleanHandler_other_method[of "Identifier (9, 13) ''exec''"
      "unresolved_ctx ''t.true(x.exec(y));''" "(0, 17)"
      "MemberExpression (0, 6) (Identifier (0, 1) ''t'') (Identifier (2, 6) ''true'')"
      "(7, 16)" "(7, 13)" "Identifier (7, 8) ''x''" "[Identifier (14, 15) ''y'']" "[]"]
  by (simp add: exec_assertion_def)

text \<open>The guards of the handlers and of the visitor: an assertion without an argument,
  an inner call whose callee has no property, \<^verbatim>\<open>match\<close> or \<^verbatim>\<open>search\<close> without an
  argument, and a visited call whose callee has no property give no report.\<close>

lemma booleanHandler_without_argument:
  "booleanHandler ctx (CallExpression rg c []) = Some NoReport"
  by (simp add: booleanHandler_def)

lemma booleanHandler_callee_without_property:
  "property c' = None \<Longrightarrow>
   booleanHandler ctx (CallExpression rg c (CallExpression rg' c' ys # rest)) = Some NoReport"
  by (simp add: booleanHandler_def)

lemma booleanHandler_match_without_argument:
  "nm \<in> {''match'', ''search''} \<Longrightarrow>
   booleanHandler ctx
     (CallExpression rg c (CallExpression rg' (MemberExpression rg'' s (Identifier rg3 nm)) [] # rest)) =
   Some NoReport"
  by (auto simp: booleanHandler_def isRegExp_absent Let_def)

lemma equalityHandler_without_argument:
  "equalityHandler ctx (CallExpression rg c []) = Some NoReport"
  by (simp add: equalityHandler_def isRegExp_absent Let_def)

lemma visitCallExpression_callee_without_property:
  "Option.bind (callee node) property = None \<Longrightarrow>
   visitCallExpression inFile inNode rootName ctx node = Some NoReport"
  by (auto simp: visitCallExpression_def split: option.splits)

text \<open>
  Claim C3 says that no finding is produced when an expected child node is absent, and
  names the inner call without an argument. Evaluated at \<^verbatim>\<open>t.true(/x/.test())\<close>,
  \<^verbatim>\<open>booleanHandler\<close> reports a finding, and the replacement text of its fix is built
  from the text of the absent argument.
\<close>

theorem booleanHandler_test_without_argument:
  "booleanHandler ctx noArgument_assertion =
     Some (Report
       \<lparr>reported = noArgument_assertion,
        message = message_for ''regex'',
        fix_result = Inr
          [ReplaceText (Identifier (2, 6) ''true'') ''regex'',
           ReplaceText
             (CallExpression (7, 17)
                (MemberExpression (7, 15) (RegExpLiteral (7, 10) ''x'' [])
                   (Identifier (11, 15) ''test''))
                [])
             (getText ctx None @ '', '' @ getText ctx (Some (RegExpLiteral (7, 10) ''x'' [])))]\<rparr>) \<and>
   visitCallExpression True True (\<lambda>c. Some ''t'') ctx noArgument_assertion =
     booleanHandler ctx noArgument_assertion"
  by (simp add: booleanHandler_def visitCallExpression_def noArgument_assertion_def
      isRegExp_RegExpLiteral replaceText_def booleanTests_def Let_def)

subsection \<open>equalityHandler\<close>

text \<open>
  Claim C7. For every equality assertion whose first two arguments are both classified
  as a regex, or both not, \<^verbatim>\<open>equalityHandler\<close> reports nothing. This holds also when
  the two results of the classifier differ as values (the \<^verbatim>\<open>regex\<close> objects of two
  literals, or such an object and \<^verbatim>\<open>true\<close>), where the comparison with
  \<^verbatim>\<open>===\<close> does not return early.
\<close>

theorem equalityHandler_both_or_neither:
  assumes a: "isRegExp ctx (at0 args) = Some va"
    and b: "isRegExp ctx (at1 args) = Some vb"
    and same: "truthy va = truthy vb"
  shows "equalityHandler ctx (CallExpression rg c args) = Some NoReport"
proof (cases "va = vb")
  case True
  with a b show ?thesis by (simp add: equalityHandler_def Let_def)
next
  case False
  have tb: "truthy vb"
  proof (rule ccontr)
    assume "\<not> truthy vb"
    with same have "va = JSBoolean False" "vb = JSBoolean False"
      by (simp_all add: not_truthy[symmetric])
    with False show False by simp
  qed
  show ?thesis
  proof (cases "at0 args")
    case None
    with a b False tb show ?thesis by (simp add: equalityHandler_def Let_def)
  next
    case (Some matchee)
    show ?thesis
    proof (cases "at1 args")
      case None
      with a b False tb Some show ?thesis by (simp add: equalityHandler_def Let_def)
    next
      case rx: (Some rx)
      have "is_Literal matchee \<Longrightarrow> raw matchee \<noteq> Some ''true'' \<and> raw matchee \<noteq> Some ''false''"
      proof (cases matchee)
        case (Literal lrg r)
        with a Some have "va = JSBoolean False" by (simp add: isRegExp_Literal)
        with same tb show ?thesis by simp
      qed simp_all
      with a b False tb Some rx show ?thesis
        by (simp add: equalityHandler_def Let_def)
    qed
  qed
qed

text \<open>In \<^verbatim>\<open>t.is(/a/.test(s), new RegExp(b))\<close> the first argument is classified by
  the \<^verbatim>\<open>regex\<close> object of the literal and the second by the name
  \<^verbatim>\<open>RegExp\<close>.\<close>

theorem equalityHandler_both_or_neither_witness:
  "isRegExp (unresolved_ctx ''t.is(/a/.test(s), new RegExp(b));'')
     (Some (CallExpression (5, 16)
        (MemberExpression (5, 13) (RegExpLiteral (5, 8) ''a'' []) (Identifier (9, 13) ''test''))
        [Identifier (14, 15) ''s''])) =
     Some (JSObject \<lparr>owner = (5, 8), pattern = ''a'', flags = []\<rparr>) \<and>
   isRegExp (unresolved_ctx ''t.is(/a/.test(s), new RegExp(b));'')
     (Some (NewExpression (18, 31) (Identifier (22, 28) ''RegExp'') [Identifier (29, 30) ''b''])) =
     Some (JSBoolean True) \<and>
   equalityHandler (unresolved_ctx ''t.is(/a/.test(s), new RegExp(b));'') mixed_assertion =
     Some NoReport"
proof -
  let ?ctx = "unresolved_ctx ''t.is(/a/.test(s), new RegExp(b));''"
  have a: "isRegExp ?ctx
     (at0 [CallExpression (5, 16)
        (MemberExpression (5, 13) (RegExpLiteral (5, 8) ''a'' []) (Identifier (9, 13) ''test''))
        [Identifier (14, 15) ''s''],
        NewExpression (18, 31) (Identifier (22, 28) ''RegExp'') [Identifier (29, 30) ''b'']]) =
     Some (JSObject \<lparr>owner = (5, 8), pattern = ''a'', flags = []\<rparr>)"
    by (simp add: isRegExp_def findRootReference_eqs)
  have b: "isRegExp ?ctx
     (at1 [CallExpression (5, 16)
        (MemberExpression (5, 13) (RegExpLiteral (5, 8) ''a'' []) (Identifier (9, 13) ''test''))
        [Identifier (14, 15) ''s''],
        NewExpression (18, 31) (Identifier (22, 28) ''RegExp'') [Identifier (29, 30) ''b'']]) =
     Some (JSBoolean True)"
    by (simp add: isRegExp_def findRootReference_eqs findReference_def unresolved_ctx_def)
  from equalityHandler_both_or_neither[OF a b, of "(0, 32)"
      "MemberExpression (0, 4) (Identifier (0, 1) ''t'') (Identifier (2, 4) ''is'')"] a b
  show ?thesis
    by (simp add: mixed_assertion_def)
qed

text \<open>A finding of \<^verbatim>\<open>equalityHandler\<close> needs an argument that is a literal with the
  raw text \<^verbatim>\<open>true\<close> or \<^verbatim>\<open>false\<close>.\<close>

lemma equalityHandler_report_boolean_literal:
  assumes "equalityHandler ctx (CallExpression rg c args) = Some (Report f)"
  shows "\<exists>matchee. (at0 args = Some matchee \<or> at1 args = Some matchee) \<and>
           is_Literal matchee \<and> raw matchee \<in> {Some ''true'', Some ''false''}"
  using assms
  by (auto simp: equalityHandler_def Let_def split: option.splits if_splits)

text \<open>
  Claim C1 says that with exactly one argument classified as a regex, a finding is
  emitted only if the other argument is the literal \<^verbatim>\<open>true\<close> or \<^verbatim>\<open>false\<close> and
  the regex side is a call. Evaluated at \<^verbatim>\<open>t.is(/a/, true)\<close>, where the regex side
  is a literal, \<^verbatim>\<open>equalityHandler\<close> reports a finding, and its fix throws when it
  reads the arguments of the regex side.
\<close>

theorem equalityHandler_regex_literal_side:
  "equalityHandler ctx literalSide_assertion =
     Some (Report
       \<lparr>reported = literalSide_assertion,
        message = message_for ''regex'',
        fix_result = Inl TypeError\<rparr>) \<and>
   visitCallExpression True True (\<lambda>c. Some ''t'') ctx literalSide_assertion =
     equalityHandler ctx literalSide_assertion"
  by (simp add: equalityHandler_def visitCallExpression_def literalSide_assertion_def
      isRegExp_RegExpLiteral isRegExp_Literal booleanFixer_def replaceText_def
      booleanTests_def equalityTests_def Let_def)

end
